theory Spec2Isabelle
  imports Main
begin

section \<open>SQL explanation pipeline: flatteners, request builder, reconciler\<close>

text \<open>
  A shallow embedding of \<^verbatim>\<open>src/pipelines/generation/sql_explanation.py\<close>.
  Python dictionaries of a fixed shape are datatypes with one selector per key, an
  optional key is an \<open>option\<close>, Python lists are lists, a list that the code mutates
  in place is passed in and returned, and every exception the code can raise is a value.
  Strings are \<open>string\<close>; a character stands for one code point below 256.
  The library functions the code calls on its inputs (\<^verbatim>\<open>orjson.loads\<close>, the prompt
  builder, \<^verbatim>\<open>orjson.dumps\<close>, the generator) are parameters of the functions that call them.
  The calls of the logger are left out, except the one in the reconciler's loop: its
  message serialises the parsed reply, which can raise, inside \<^verbatim>\<open>try\<close>.
\<close>

subsection \<open>Explanation units\<close>

text \<open>The dictionary \<^verbatim>\<open>{"values": ..., "id": ...}\<close> every flattener emits.\<close>

datatype 'v explanation_unit = Unit (unit_values: 'v) (unit_id: string)

text \<open>\<^verbatim>\<open>d.get("id", "")\<close> on a dictionary whose key \<^verbatim>\<open>id\<close> is optional.\<close>

definition get_id :: "string option \<Rightarrow> string" where
  "get_id i = (case i of None \<Rightarrow> [] | Some s \<Rightarrow> s)"

subsection \<open>Relation trees\<close>

datatype expr_source =
  ExprSource (es_expression: string) (sourceDataset: string) (sourceColumn: string)

datatype join_kind = INNER | LEFT | RIGHT | FULL | CROSS | IMPLICIT

text \<open>
  A relation node is a dictionary with a \<^verbatim>\<open>type\<close> string: a \<^verbatim>\<open>TABLE\<close> leaf with its
  \<^verbatim>\<open>tableName\<close>, a join with \<^verbatim>\<open>criteria.expression\<close>, \<^verbatim>\<open>exprSources\<close>, \<^verbatim>\<open>left\<close> and
  \<^verbatim>\<open>right\<close>, or a \<^verbatim>\<open>SUBQUERY\<close>. Each may carry an \<^verbatim>\<open>id\<close>.
\<close>

datatype relation =
    TABLE string "string option"
  | JOIN join_kind string "expr_source list" relation relation "string option"
  | SUBQUERY "string option"

fun join_kind_name :: "join_kind \<Rightarrow> string" where
  "join_kind_name INNER = ''INNER_JOIN''"
| "join_kind_name LEFT = ''LEFT_JOIN''"
| "join_kind_name RIGHT = ''RIGHT_JOIN''"
| "join_kind_name FULL = ''FULL_JOIN''"
| "join_kind_name CROSS = ''CROSS_JOIN''"
| "join_kind_name IMPLICIT = ''IMPLICIT_JOIN''"

text \<open>The value of \<^verbatim>\<open>relation["type"]\<close>.\<close>

fun rel_type :: "relation \<Rightarrow> string" where
  "rel_type (TABLE n i) = ''TABLE''"
| "rel_type (JOIN k c es l r i) = join_kind_name k"
| "rel_type (SUBQUERY i) = ''SUBQUERY''"

text \<open>Python's \<^verbatim>\<open>s.endswith(suf)\<close>.\<close>

definition endswith :: "string \<Rightarrow> string \<Rightarrow> bool" where
  "endswith s suf = (length suf \<le> length s \<and> drop (length s - length suf) s = suf)"

text \<open>The \<^verbatim>\<open>values\<close> of a relation unit: a table's, or a join's.\<close>

datatype rel_values =
    TableValues string string
  | JoinValues string string "expr_source list"

text \<open>
  The two lists \<^verbatim>\<open>_collect_relations\<close> is handed are Python lists of anything: the
  caller's \<^verbatim>\<open>cte_names\<close> holds names, \<^verbatim>\<open>results\<close> holds units, and \<^verbatim>\<open>append\<close> puts a
  unit on whichever list is bound to the parameter \<^verbatim>\<open>result\<close>.
\<close>

datatype item = CteName string | RelUnit "rel_values explanation_unit"

text \<open>
  \<^verbatim>\<open>_is_subquery_or_has_subquery_child\<close>: the node is a \<^verbatim>\<open>SUBQUERY\<close>, or its type ends
  with \<^verbatim>\<open>_JOIN\<close> and the type of its left or right child is \<^verbatim>\<open>SUBQUERY\<close>.
\<close>

fun is_subquery_or_has_subquery_child :: "relation \<Rightarrow> bool" where
  "is_subquery_or_has_subquery_child (SUBQUERY i) = True"
| "is_subquery_or_has_subquery_child (JOIN k c es l r i) =
     (if endswith (join_kind_name k) ''_JOIN''
      then (if rel_type l = ''SUBQUERY'' \<or> rel_type r = ''SUBQUERY'' then True else False)
      else False)"
| "is_subquery_or_has_subquery_child (TABLE n i) = False"

text \<open>
  \<^verbatim>\<open>_collect_relations(relation, result, cte_names, top_level)\<close>. Both lists are
  mutable objects shared with the caller, so the function returns the final contents of
  the list bound to \<^verbatim>\<open>result\<close> and of the list bound to \<^verbatim>\<open>cte_names\<close>, in that order.
  The two recursive calls are written
  \<^verbatim>\<open>_collect_relations(relation["left"], cte_names, result, top_level=False)\<close>:
  the callee's \<^verbatim>\<open>result\<close> is this call's \<^verbatim>\<open>cte_names\<close> and the other way round.
  A \<^verbatim>\<open>SUBQUERY\<close> returns at the first test; a \<^verbatim>\<open>TABLE\<close> passes it, and its type does
  not end with \<^verbatim>\<open>_JOIN\<close>.
\<close>

fun collect_relations ::
  "relation \<Rightarrow> item list \<Rightarrow> item list \<Rightarrow> bool \<Rightarrow> item list \<times> item list" where
  "collect_relations (SUBQUERY i) result cte_names top_level = (result, cte_names)"
| "collect_relations (TABLE n i) result cte_names top_level =
     (if top_level
      then (if CteName n \<in> set cte_names then (result, cte_names)
            else (result @ [RelUnit (Unit (TableValues ''TABLE'' n) (get_id i))], cte_names))
      else (result, cte_names))"
| "collect_relations (JOIN k c es l r i) result cte_names top_level =
     (if is_subquery_or_has_subquery_child (JOIN k c es l r i) then (result, cte_names)
      else if endswith (join_kind_name k) ''_JOIN'' then
        (let result1 = result @
               [RelUnit (Unit (JoinValues (join_kind_name k) c
                   (map (\<lambda>e. ExprSource (es_expression e) (sourceDataset e) (sourceColumn e)) es))
                 (get_id i))];
             (cte_names1, result2) = collect_relations l cte_names result1 False;
             (cte_names2, result3) = collect_relations r cte_names1 result2 False
         in (result3, cte_names2))
      else (result, cte_names))"

text \<open>
  \<^verbatim>\<open>_compose_sql_expression_of_relation_type(relation, cte_names)\<close>: the returned list,
  and the contents of the caller's \<^verbatim>\<open>cte_names\<close> list when the call returns.
\<close>

definition compose_sql_expression_of_relation_type ::
  "relation \<Rightarrow> item list \<Rightarrow> item list \<times> item list" where
  "compose_sql_expression_of_relation_type relation cte_names =
     collect_relations relation [] cte_names True"

text \<open>What the specification counts on a relation tree.\<close>

fun has_subquery :: "relation \<Rightarrow> bool" where
  "has_subquery (SUBQUERY i) = True"
| "has_subquery (TABLE n i) = False"
| "has_subquery (JOIN k c es l r i) = (has_subquery l \<or> has_subquery r)"

fun count_joins :: "relation \<Rightarrow> nat" where
  "count_joins (SUBQUERY i) = 0"
| "count_joins (TABLE n i) = 0"
| "count_joins (JOIN k c es l r i) = 1 + count_joins l + count_joins r"

text \<open>A top-level \<^verbatim>\<open>TABLE\<close> leaf whose name is not among the CTE names counts once.\<close>

fun count_top_level_tables :: "relation \<Rightarrow> string list \<Rightarrow> nat" where
  "count_top_level_tables (TABLE n i) ctes = (if n \<in> set ctes then 0 else 1)"
| "count_top_level_tables r ctes = 0"

definition nested_join_example :: relation where
  "nested_join_example =
     JOIN INNER ''o.cid = c.id'' [ExprSource ''o.cid'' ''orders'' ''cid'']
       (JOIN LEFT ''o.id = i.oid'' [ExprSource ''o.id'' ''orders'' ''id'']
          (TABLE ''orders'' (Some ''t1'')) (TABLE ''items'' (Some ''t2'')) (Some ''j2''))
       (TABLE ''customers'' (Some ''t3'')) (Some ''j1'')"

subsection \<open>Filter trees\<close>

datatype bool_op = AND | OR

fun bool_op_name :: "bool_op \<Rightarrow> string" where
  "bool_op_name AND = ''AND''"
| "bool_op_name OR = ''OR''"

text \<open>
  A filter node: an \<^verbatim>\<open>EXPR\<close> leaf with its \<^verbatim>\<open>node\<close> string, an \<^verbatim>\<open>AND\<close>/\<^verbatim>\<open>OR\<close> node with
  \<^verbatim>\<open>left\<close> and \<^verbatim>\<open>right\<close>, or a node of any other type. Each may carry an \<^verbatim>\<open>id\<close>.
\<close>

datatype filter_analysis =
    EXPR string "string option"
  | BOOL bool_op filter_analysis filter_analysis "string option"
  | UNRECOGNIZED

text \<open>
  Python's \<^verbatim>\<open>repr\<close> of a string: double quotes when the string holds a single quote and
  no double quote, single quotes otherwise; the quote and the backslash are escaped, so
  are tab, newline and carriage return, and any other character that is not printable
  is written \<^verbatim>\<open>\xhh\<close>.
\<close>

definition hex_digit :: "nat \<Rightarrow> char" where
  "hex_digit n = ''0123456789abcdef'' ! n"

definition is_printable :: "char \<Rightarrow> bool" where
  "is_printable c =
     (let n = (of_char c :: nat) in (32 \<le> n \<and> n < 127) \<or> (161 \<le> n \<and> n \<noteq> 173))"

definition escape_char :: "char \<Rightarrow> char \<Rightarrow> string" where
  "escape_char quote c =
     (if c = quote \<or> c = CHR 0x5C then [CHR 0x5C, c]
      else if c = CHR 0x09 then [CHR 0x5C, CHR ''t'']
      else if c = CHR 0x0A then [CHR 0x5C, CHR ''n'']
      else if c = CHR 0x0D then [CHR 0x5C, CHR ''r'']
      else if is_printable c then [c]
      else [CHR 0x5C, CHR ''x'', hex_digit (of_char c div 16), hex_digit (of_char c mod 16)])"

definition py_repr :: "string \<Rightarrow> string" where
  "py_repr s =
     (let quote = (if CHR 0x27 \<in> set s \<and> CHR 0x22 \<notin> set s then CHR 0x22 else CHR 0x27)
      in quote # concat (map (escape_char quote) s) @ [quote])"

text \<open>
  What \<^verbatim>\<open>_compose_sql_expression_of_filter_type\<close> returns: the bare \<^verbatim>\<open>node\<close> string, or a
  dictionary \<^verbatim>\<open>{"values": ..., "id": ...}\<close>.
\<close>

datatype filter_result = Str string | Dict "string explanation_unit"

text \<open>
  How an f-string renders \<^verbatim>\<open>{left_expr}\<close>: a string as it is, a dictionary by its
  \<^verbatim>\<open>str\<close>, which lists the keys in insertion order with the \<^verbatim>\<open>repr\<close> of each value.
\<close>

fun py_format :: "filter_result \<Rightarrow> string" where
  "py_format (Str s) = s"
| "py_format (Dict u) =
     ''{'' @ py_repr ''values'' @ '': '' @ py_repr (unit_values u) @ '', '' @
     py_repr ''id'' @ '': '' @ py_repr (unit_id u) @ ''}''"

fun compose_sql_expression_of_filter_type :: "filter_analysis \<Rightarrow> bool \<Rightarrow> filter_result" where
  "compose_sql_expression_of_filter_type (EXPR node i) top_flag =
     (if top_flag then Dict (Unit node (get_id i)) else Str node)"
| "compose_sql_expression_of_filter_type (BOOL op l r i) top_flag =
     (let left_expr = compose_sql_expression_of_filter_type l False;
          right_expr = compose_sql_expression_of_filter_type r False
      in Dict (Unit (py_format left_expr @ '' '' @ bool_op_name op @ '' '' @ py_format right_expr)
                (get_id i)))"
| "compose_sql_expression_of_filter_type UNRECOGNIZED top_flag = Dict (Unit [] [])"

text \<open>
  The rendering the specification describes: the leaves' expressions in order, joined
  by the operator names with single spaces, no parentheses.
\<close>

fun inorder_concat :: "filter_analysis \<Rightarrow> string" where
  "inorder_concat (EXPR node i) = node"
| "inorder_concat (BOOL op l r i) =
     inorder_concat l @ '' '' @ bool_op_name op @ '' '' @ inorder_concat r"
| "inorder_concat UNRECOGNIZED = []"

definition nested_filter_example :: filter_analysis where
  "nested_filter_example =
     BOOL AND
       (BOOL OR (EXPR ''age > 18'' (Some ''f3'')) (EXPR ''vip = 1'' (Some ''f4'')) (Some ''f2''))
       (EXPR ''active = 1'' (Some ''f5'')) (Some ''f1'')"

subsection \<open>Select items\<close>

datatype properties =
  Properties (includeFunctionCall: string) (includeMathematicalOperation: string)

text \<open>
  A select item: \<^verbatim>\<open>alias\<close>, \<^verbatim>\<open>expression\<close>, \<^verbatim>\<open>properties\<close>, and the optional keys
  \<^verbatim>\<open>exprSources\<close> and \<^verbatim>\<open>id\<close>.
\<close>

datatype select_item =
  SelectItem (si_alias: string) (si_expression: string) (si_properties: properties)
    (si_exprSources: "expr_source list option") (si_id: "string option")

datatype data_source = DataSource (ds_sourceDataset: string) (ds_sourceColumn: string)

datatype select_values = SelectValues (sv_alias: string) (sv_expression: string)

datatype select_result =
  SelectResult
    (withFunctionCallOrMathematicalOperation: "select_values explanation_unit list")
    (withoutFunctionCallOrMathematicalOperation: "select_values explanation_unit list")

text \<open>
  The condition of the inner loop of \<^verbatim>\<open>_is_select_item_existed_in_selected_data_sources\<close>:
  \<^verbatim>\<open>exprSources\<close> is a key of the item, its list is not empty, and the first entry has
  the data source's dataset and column.
\<close>

definition matches_data_source :: "select_item \<Rightarrow> data_source \<Rightarrow> bool" where
  "matches_data_source select_item data_source =
     (case si_exprSources select_item of
        None \<Rightarrow> False
      | Some [] \<Rightarrow> False
      | Some (e # _) \<Rightarrow>
          sourceDataset e = ds_sourceDataset data_source \<and>
          sourceColumn e = ds_sourceColumn data_source)"

text \<open>The two nested loops, each returning \<^verbatim>\<open>True\<close> at the first match.\<close>

fun existed_in_data_sources :: "select_item \<Rightarrow> data_source list \<Rightarrow> bool" where
  "existed_in_data_sources select_item [] = False"
| "existed_in_data_sources select_item (data_source # rest) =
     (if matches_data_source select_item data_source then True
      else existed_in_data_sources select_item rest)"

fun is_select_item_existed_in_selected_data_sources ::
  "select_item \<Rightarrow> data_source list list \<Rightarrow> bool" where
  "is_select_item_existed_in_selected_data_sources select_item [] = False"
| "is_select_item_existed_in_selected_data_sources select_item (selected_data_source # rest) =
     (if existed_in_data_sources select_item selected_data_source then True
      else is_select_item_existed_in_selected_data_sources select_item rest)"

definition select_unit :: "select_item \<Rightarrow> select_values explanation_unit" where
  "select_unit select_item =
     Unit (SelectValues (si_alias select_item) (si_expression select_item))
       (get_id (si_id select_item))"

text \<open>The loop over \<^verbatim>\<open>select_items\<close>, with \<^verbatim>\<open>result\<close> as its state.\<close>

fun select_loop ::
  "select_item list \<Rightarrow> data_source list list \<Rightarrow> select_result \<Rightarrow> select_result" where
  "select_loop [] selected_data_sources result = result"
| "select_loop (select_item # rest) selected_data_sources result =
     select_loop rest selected_data_sources
       (if \<not> is_select_item_existed_in_selected_data_sources select_item selected_data_sources
        then
          (if includeFunctionCall (si_properties select_item) = ''true''
              \<or> includeMathematicalOperation (si_properties select_item) = ''true''
           then SelectResult
                  (withFunctionCallOrMathematicalOperation result @ [select_unit select_item])
                  (withoutFunctionCallOrMathematicalOperation result)
           else SelectResult
                  (withFunctionCallOrMathematicalOperation result)
                  (withoutFunctionCallOrMathematicalOperation result @ [select_unit select_item]))
        else result)"

definition compose_sql_expression_of_select_type ::
  "select_item list \<Rightarrow> data_source list list \<Rightarrow> select_result" where
  "compose_sql_expression_of_select_type select_items selected_data_sources =
     select_loop select_items selected_data_sources (SelectResult [] [])"

text \<open>
  The specification's words for the same: the pair of dataset and column of the first
  entry of \<^verbatim>\<open>exprSources\<close>, when there is one; an item is retained when that pair is the
  pair of no selected data source; it goes with the function calls and mathematical
  operations when one of the two properties is the string \<^verbatim>\<open>true\<close>.
\<close>

definition primary_source :: "select_item \<Rightarrow> (string \<times> string) option" where
  "primary_source select_item =
     (case si_exprSources select_item of
        None \<Rightarrow> None
      | Some [] \<Rightarrow> None
      | Some (e # _) \<Rightarrow> Some (sourceDataset e, sourceColumn e))"

definition retained :: "select_item \<Rightarrow> data_source list list \<Rightarrow> bool" where
  "retained select_item selected_data_sources =
     (case primary_source select_item of
        None \<Rightarrow> True
      | Some p \<Rightarrow>
          p \<notin> set (map (\<lambda>d. (ds_sourceDataset d, ds_sourceColumn d))
                     (concat selected_data_sources)))"

definition has_function_call_or_mathematical_operation :: "select_item \<Rightarrow> bool" where
  "has_function_call_or_mathematical_operation select_item =
     (includeFunctionCall (si_properties select_item) = ''true''
      \<or> includeMathematicalOperation (si_properties select_item) = ''true'')"

subsection \<open>Bundles and the request builder\<close>

datatype error =
  KeyError | IndexError | TypeError | AttributeError | JSONDecodeError | JSONEncodeError

text \<open>
  One preprocessed bundle, as \<^verbatim>\<open>SQLAnalysisPreprocessor.run\<close> builds it: the five keys
  \<^verbatim>\<open>filter\<close>, \<^verbatim>\<open>groupByKeys\<close>, \<^verbatim>\<open>relation\<close>, \<^verbatim>\<open>selectItems\<close>, \<^verbatim>\<open>sortings\<close>, inserted in this
  order. The filter is a unit, or the empty dictionary (\<open>None\<close>) when the fragment has
  none.
\<close>

datatype explanation_bundle =
  Bundle (b_filter: "string explanation_unit option")
    (b_groupByKeys: "string explanation_unit list")
    (b_relation: "rel_values explanation_unit list")
    (b_selectItems: select_result)
    (b_sortings: "string explanation_unit list")

text \<open>
  The \<^verbatim>\<open>selectItems\<close> step of \<^verbatim>\<open>SQLAnalysisPreprocessor.run\<close>: the flattener's result when
  the fragment has the key, otherwise the dictionary of two empty lists.
\<close>

definition preprocess_selectItems ::
  "select_item list option \<Rightarrow> data_source list list \<Rightarrow> select_result" where
  "preprocess_selectItems select_items selected_data_sources =
     (case select_items of
        Some items \<Rightarrow> compose_sql_expression_of_select_type items selected_data_sources
      | None \<Rightarrow> SelectResult [] [])"

text \<open>The values a bundle's keys hold, and the bundle's \<^verbatim>\<open>items()\<close> in insertion order.\<close>

datatype bundle_value =
    FilterValue "string explanation_unit option"
  | KeyList "string explanation_unit list"
  | RelationList "rel_values explanation_unit list"
  | SelectValue select_result

definition bundle_items :: "explanation_bundle \<Rightarrow> (string \<times> bundle_value) list" where
  "bundle_items b =
     [(''filter'', FilterValue (b_filter b)),
      (''groupByKeys'', KeyList (b_groupByKeys b)),
      (''relation'', RelationList (b_relation b)),
      (''selectItems'', SelectValue (b_selectItems b)),
      (''sortings'', KeyList (b_sortings b))]"

text \<open>
  Python's truth value of a bundle value: an empty list and the empty dictionary are
  false; a unit is a dictionary of two keys, and so is the value of \<^verbatim>\<open>selectItems\<close>,
  whatever its two lists hold.
\<close>

fun truthy :: "bundle_value \<Rightarrow> bool" where
  "truthy (FilterValue None) = False"
| "truthy (FilterValue (Some u)) = True"
| "truthy (KeyList xs) = (xs \<noteq> [])"
| "truthy (RelationList xs) = (xs \<noteq> [])"
| "truthy (SelectValue r) = True"

text \<open>The payload of one request: the category's values without the ids.\<close>

datatype analysis_values =
    FilterText string
  | KeyTexts "string list"
  | RelationValues "rel_values list"
  | SelectItemsValues "select_values list" "select_values list"

text \<open>
  The body of \<^verbatim>\<open>if value:\<close> in \<^verbatim>\<open>prompts\<close>: for a key other than \<^verbatim>\<open>selectItems\<close> the
  \<^verbatim>\<open>values\<close> of each unit of a list, or \<^verbatim>\<open>value["values"]\<close>; for \<^verbatim>\<open>selectItems\<close> the
  \<^verbatim>\<open>values\<close> of each unit of the two lists. A subscript the value does not support
  raises.
\<close>

fun with_values :: "string \<Rightarrow> bundle_value \<Rightarrow> error + (string \<times> analysis_values)" where
  "with_values key (KeyList xs) =
     (if key \<noteq> ''selectItems'' then Inr (key, KeyTexts (map unit_values xs))
      else Inl TypeError)"
| "with_values key (RelationList xs) =
     (if key \<noteq> ''selectItems'' then Inr (key, RelationValues (map unit_values xs))
      else Inl TypeError)"
| "with_values key (FilterValue (Some u)) =
     (if key \<noteq> ''selectItems'' then Inr (key, FilterText (unit_values u))
      else Inl KeyError)"
| "with_values key (FilterValue None) = Inl KeyError"
| "with_values key (SelectValue r) =
     (if key \<noteq> ''selectItems'' then Inl KeyError
      else Inr (key, SelectItemsValues
                  (map unit_values (withFunctionCallOrMathematicalOperation r))
                  (map unit_values (withoutFunctionCallOrMathematicalOperation r))))"

fun get_sql_explanation_prompt_given_analysis_type :: "string \<Rightarrow> string" where
  "get_sql_explanation_prompt_given_analysis_type sql_analysis_type =
     (if sql_analysis_type = ''filter'' then ''Explain the filter condition in the SQL query.''
      else if sql_analysis_type = ''groupByKeys''
        then ''Explain the group by keys in the SQL query.''
      else if sql_analysis_type = ''relation'' then ''Explain the relation in the SQL query.''
      else if sql_analysis_type = ''selectItems''
        then ''Explain the select items in the SQL query.''
      else if sql_analysis_type = ''sortings'' then ''Explain the sortings in the SQL query.''
      else [])"

text \<open>
  The two loops of \<^verbatim>\<open>prompts\<close>, over the bundles and over the items of each, with the
  two lists \<^verbatim>\<open>sql_analysis_types\<close> and
  \<^verbatim>\<open>preprocessed_sql_analysis_results_with_values\<close> as state.
\<close>

fun items_loop ::
  "(string \<times> bundle_value) list \<Rightarrow> string list \<times> (string \<times> analysis_values) list \<Rightarrow>
   error + (string list \<times> (string \<times> analysis_values) list)" where
  "items_loop [] st = Inr st"
| "items_loop ((key, v) # rest) (sql_analysis_types, results_with_values) =
     (if truthy v then
        (case with_values key v of
           Inl e \<Rightarrow> Inl e
         | Inr x \<Rightarrow> items_loop rest (sql_analysis_types @ [key], results_with_values @ [x]))
      else items_loop rest (sql_analysis_types, results_with_values))"

fun bundles_loop ::
  "explanation_bundle list \<Rightarrow> string list \<times> (string \<times> analysis_values) list \<Rightarrow>
   error + (string list \<times> (string \<times> analysis_values) list)" where
  "bundles_loop [] st = Inr st"
| "bundles_loop (b # rest) st =
     (case items_loop (bundle_items b) st of
        Inl e \<Rightarrow> Inl e
      | Inr st' \<Rightarrow> bundles_loop rest st')"

text \<open>The keyword arguments of one call of \<^verbatim>\<open>prompt_builder.run\<close>.\<close>

datatype prompt_args =
  PromptArgs (pa_question: string) (pa_sql: string)
    (pa_sql_analysis_result: "string \<times> analysis_values")
    (pa_explanation_hint: string) (pa_sql_summary: string)

text \<open>
  \<^verbatim>\<open>prompts\<close>; the prompt builder is the caller's, and \<^verbatim>\<open>preprocess\<close> stands for
  \<^verbatim>\<open>preprocess["preprocessed_sql_analysis_results"]\<close>.
\<close>

definition prompts ::
  "string \<Rightarrow> string \<Rightarrow> explanation_bundle list \<Rightarrow> string \<Rightarrow> (prompt_args \<Rightarrow> 'p) \<Rightarrow> error + 'p list" where
  "prompts question sql preprocess sql_summary prompt_builder =
     (case bundles_loop preprocess ([], []) of
        Inl e \<Rightarrow> Inl e
      | Inr (sql_analysis_types, results_with_values) \<Rightarrow>
          Inr (map (\<lambda>(sql_analysis_type, sql_analysis_result).
                  prompt_builder
                    (PromptArgs question sql sql_analysis_result
                       (get_sql_explanation_prompt_given_analysis_type sql_analysis_type)
                       sql_summary))
                (zip sql_analysis_types results_with_values)))"

text \<open>A fragment with a filter and nothing else, preprocessed.\<close>

definition filter_only_bundle :: explanation_bundle where
  "filter_only_bundle =
     Bundle (Some (Unit ''age > 18'' ''f1'')) [] [] (preprocess_selectItems None []) []"

subsection \<open>Replies and the reconciler\<close>

text \<open>
  A parsed JSON document, as \<^verbatim>\<open>orjson.loads\<close> returns it: \<^verbatim>\<open>None\<close>, a \<^verbatim>\<open>bool\<close>, an
  \<^verbatim>\<open>int\<close>, a \<^verbatim>\<open>float\<close> (mantissa and binary exponent), a \<^verbatim>\<open>str\<close>, a \<^verbatim>\<open>list\<close>, or a \<^verbatim>\<open>dict\<close>
  with its keys in insertion order, each key once.
\<close>

datatype json =
    JNull
  | JBool bool
  | JInt int
  | JFloat int int
  | JStr string
  | JArr "json list"
  | JObj "(string \<times> json) list"

fun truthy_json :: "json \<Rightarrow> bool" where
  "truthy_json JNull = False"
| "truthy_json (JBool b) = b"
| "truthy_json (JInt n) = (n \<noteq> 0)"
| "truthy_json (JFloat m e) = (m \<noteq> 0)"
| "truthy_json (JStr s) = (s \<noteq> [])"
| "truthy_json (JArr xs) = (xs \<noteq> [])"
| "truthy_json (JObj kvs) = (kvs \<noteq> [])"

text \<open>\<^verbatim>\<open>x.get(key, default)\<close>: only a dictionary has the method.\<close>

fun dict_get :: "json \<Rightarrow> string \<Rightarrow> json \<Rightarrow> error + json" where
  "dict_get (JObj kvs) key dflt =
     Inr (case map_of kvs key of None \<Rightarrow> dflt | Some v \<Rightarrow> v)"
| "dict_get x key dflt = Inl AttributeError"

text \<open>\<^verbatim>\<open>x[key]\<close> with a string key.\<close>

fun subscript :: "json \<Rightarrow> string \<Rightarrow> error + json" where
  "subscript (JObj kvs) key =
     (case map_of kvs key of None \<Rightarrow> Inl KeyError | Some v \<Rightarrow> Inr v)"
| "subscript x key = Inl TypeError"

text \<open>
  What \<^verbatim>\<open>zip\<close> draws from its second argument: the elements of a list, the characters
  of a string, the keys of a dictionary; anything else is not iterable.
\<close>

fun py_iter :: "json \<Rightarrow> error + json list" where
  "py_iter (JArr xs) = Inr xs"
| "py_iter (JStr s) = Inr (map (\<lambda>c. JStr [c]) s)"
| "py_iter (JObj kvs) = Inr (map (\<lambda>kv. JStr (fst kv)) kvs)"
| "py_iter x = Inl TypeError"

fun extract_to_str :: "json \<Rightarrow> json" where
  "extract_to_str (JArr (x # xs)) = x"
| "extract_to_str (JStr s) = JStr s"
| "extract_to_str data = JStr []"

text \<open>One element of \<^verbatim>\<open>generates\<close>: the generator's output, with its list of replies.\<close>

datatype generate = Generate (replies: "string list")

text \<open>
  The records of the result list: \<^verbatim>\<open>{"type": ..., "payload": {...}}\<close>, the payload with
  \<^verbatim>\<open>id\<close>, \<^verbatim>\<open>expression\<close> and \<^verbatim>\<open>explanation\<close>, or with \<^verbatim>\<open>id\<close>, the keys of a relation's or a
  select item's \<^verbatim>\<open>values\<close> and \<^verbatim>\<open>explanation\<close>, a select item's also with
  \<^verbatim>\<open>isFunctionCallOrMathematicalOperation\<close>.
\<close>

datatype payload =
    ExprPayload string string json
  | RelationPayload string rel_values json
  | SelectItemPayload string select_values bool json

datatype explanation_record = ExplanationRecord (record_type: string) (record_payload: payload)

text \<open>Sequencing: an exception ends the computation.\<close>

definition on_success :: "error + 'a \<Rightarrow> ('a \<Rightarrow> error + 'b) \<Rightarrow> error + 'b" where
  "on_success x f = (case x of Inl e \<Rightarrow> Inl e | Inr v \<Rightarrow> f v)"

text \<open>
  \<^verbatim>\<open>orjson.loads(generate["replies"][0])["results"]\<close>. The parser is the library's: it
  returns the document, or raises (\<open>None\<close>).
\<close>

definition parse_results :: "(string \<Rightarrow> json option) \<Rightarrow> generate \<Rightarrow> error + json" where
  "parse_results loads g =
     (case replies g of
        [] \<Rightarrow> Inl IndexError
      | reply # _ \<Rightarrow>
          (case loads reply of
             None \<Rightarrow> Inl JSONDecodeError
           | Some document \<Rightarrow> subscript document ''results''))"

text \<open>
  A condition \<^verbatim>\<open>bundle.get(key, d) and results.get(key, d)\<close>: the right operand is only
  evaluated when the left one is true.
\<close>

definition both_truthy :: "bool \<Rightarrow> json \<Rightarrow> string \<Rightarrow> json \<Rightarrow> error + bool" where
  "both_truthy bundle_side sql_explanation_results key dflt =
     (if \<not> bundle_side then Inr False
      else on_success (dict_get sql_explanation_results key dflt)
             (\<lambda>v. Inr (truthy_json v)))"

text \<open>
  A loop or comprehension over \<^verbatim>\<open>zip(units, explanations)\<close>, building one record per
  pair. \<^verbatim>\<open>zip\<close> raises at once when the second argument is not iterable; nothing in
  the body raises.
\<close>

definition zip_records ::
  "('u \<Rightarrow> json \<Rightarrow> explanation_record) \<Rightarrow> 'u list \<Rightarrow> json \<Rightarrow>
   error + explanation_record list" where
  "zip_records make units explanations =
     on_success (py_iter explanations)
       (\<lambda>es. Inr (map (\<lambda>(u, sql_explanation). make u (extract_to_str sql_explanation))
                    (zip units es)))"

definition key_record :: "string \<Rightarrow> string explanation_unit \<Rightarrow> json \<Rightarrow> explanation_record" where
  "key_record category u explanation =
     ExplanationRecord category (ExprPayload (unit_id u) (unit_values u) explanation)"

definition relation_record :: "rel_values explanation_unit \<Rightarrow> json \<Rightarrow> explanation_record" where
  "relation_record u explanation =
     ExplanationRecord ''relation'' (RelationPayload (unit_id u) (unit_values u) explanation)"

definition select_record ::
  "bool \<Rightarrow> select_values explanation_unit \<Rightarrow> json \<Rightarrow> explanation_record" where
  "select_record is_function_call_or_mathematical_operation u explanation =
     ExplanationRecord ''selectItems''
       (SelectItemPayload (unit_id u) (unit_values u)
          is_function_call_or_mathematical_operation explanation)"

text \<open>
  The body of the loop over \<^verbatim>\<open>generates\<close>, after the parse: the chain of \<^verbatim>\<open>if\<close> and
  \<^verbatim>\<open>elif\<close> over the five categories, written from its last branch to its first, each
  branch handing over to the next when its condition is false. Each returns the new
  contents of \<^verbatim>\<open>results\<close>, or the exception; whenever the body raises, it has appended
  nothing yet.
\<close>

definition reconcile_sortings ::
  "explanation_bundle \<Rightarrow> json \<Rightarrow> explanation_record list \<Rightarrow> error + explanation_record list" where
  "reconcile_sortings b r results =
     on_success (both_truthy (b_sortings b \<noteq> []) r ''sortings'' (JArr [])) (\<lambda>for_sortings.
     if for_sortings then
       on_success (subscript r ''sortings'') (\<lambda>x.
       on_success (zip_records (key_record ''sortings'') (b_sortings b) x) (\<lambda>records.
       Inr (results @ records)))
     else Inr results)"

definition reconcile_selectItems ::
  "explanation_bundle \<Rightarrow> json \<Rightarrow> explanation_record list \<Rightarrow> error + explanation_record list" where
  "reconcile_selectItems b r results =
     on_success (both_truthy True r ''selectItems'' (JObj [])) (\<lambda>for_select.
     if for_select then
       on_success (dict_get r ''selectItems'' (JObj [])) (\<lambda>s1.
       on_success (dict_get s1 ''withFunctionCallOrMathematicalOperation'' (JArr [])) (\<lambda>x1.
       on_success (zip_records (select_record True)
                     (withFunctionCallOrMathematicalOperation (b_selectItems b)) x1) (\<lambda>records1.
       on_success (dict_get r ''selectItems'' (JObj [])) (\<lambda>s2.
       on_success (dict_get s2 ''withoutFunctionCallOrMathematicalOperation'' (JArr [])) (\<lambda>x2.
       on_success (zip_records (select_record False)
                     (withoutFunctionCallOrMathematicalOperation (b_selectItems b)) x2) (\<lambda>records2.
       Inr (results @ records1 @ records2)))))))
     else reconcile_sortings b r results)"

definition reconcile_relation ::
  "explanation_bundle \<Rightarrow> json \<Rightarrow> explanation_record list \<Rightarrow> error + explanation_record list" where
  "reconcile_relation b r results =
     on_success (both_truthy (b_relation b \<noteq> []) r ''relation'' (JArr [])) (\<lambda>for_relation.
     if for_relation then
       on_success (subscript r ''relation'') (\<lambda>x.
       on_success (zip_records relation_record (b_relation b) x) (\<lambda>records.
       Inr (results @ records)))
     else reconcile_selectItems b r results)"

definition reconcile_groupByKeys ::
  "explanation_bundle \<Rightarrow> json \<Rightarrow> explanation_record list \<Rightarrow> error + explanation_record list" where
  "reconcile_groupByKeys b r results =
     on_success (both_truthy (b_groupByKeys b \<noteq> []) r ''groupByKeys'' (JArr [])) (\<lambda>for_keys.
     if for_keys then
       on_success (subscript r ''groupByKeys'') (\<lambda>x.
       on_success (zip_records (key_record ''groupByKeys'') (b_groupByKeys b) x) (\<lambda>records.
       Inr (results @ records)))
     else reconcile_relation b r results)"

definition reconcile ::
  "explanation_bundle \<Rightarrow> json \<Rightarrow> explanation_record list \<Rightarrow> error + explanation_record list" where
  "reconcile b r results =
     on_success (both_truthy (b_filter b \<noteq> None) r ''filter'' (JObj [])) (\<lambda>for_filter.
     if for_filter then
       (case b_filter b of
          None \<Rightarrow> Inl KeyError
        | Some u \<Rightarrow>
            on_success (subscript r ''filter'') (\<lambda>x.
            Inr (results @ [key_record ''filter'' u (extract_to_str x)])))
     else reconcile_groupByKeys b r results)"

text \<open>
  The message of \<^verbatim>\<open>logger.debug\<close> in the loop is an f-string that holds
  \<^verbatim>\<open>orjson.dumps(sql_explanation_results, ...)\<close>: the serialiser is the library's, it
  returns the text or raises (\<open>None\<close>), and the call is made whatever the log level.
\<close>

definition log_results :: "(json \<Rightarrow> string option) \<Rightarrow> json \<Rightarrow> error + string" where
  "log_results dumps sql_explanation_results =
     (case dumps sql_explanation_results of
        None \<Rightarrow> Inl JSONEncodeError
      | Some message \<Rightarrow> Inr message)"

text \<open>The whole body of the loop: the parse, the log message, the chain.\<close>

definition reconcile_reply ::
  "(string \<Rightarrow> json option) \<Rightarrow> (json \<Rightarrow> string option) \<Rightarrow> explanation_bundle \<Rightarrow> generate \<Rightarrow>
   explanation_record list \<Rightarrow> error + explanation_record list" where
  "reconcile_reply loads dumps b g results =
     on_success (parse_results loads g) (\<lambda>r.
     on_success (log_results dumps r) (\<lambda>message.
     reconcile b r results))"

text \<open>
  The loop over \<^verbatim>\<open>generates\<close> inside \<^verbatim>\<open>try\<close>: an exception leaves the loop, the handler
  logs it, and \<^verbatim>\<open>results\<close> is what it was.
\<close>

fun run_loop ::
  "(string \<Rightarrow> json option) \<Rightarrow> (json \<Rightarrow> string option) \<Rightarrow> explanation_bundle \<Rightarrow>
   generate list \<Rightarrow> explanation_record list \<Rightarrow> explanation_record list" where
  "run_loop loads dumps b [] results = results"
| "run_loop loads dumps b (g # rest) results =
     (case reconcile_reply loads dumps b g results of
        Inl e \<Rightarrow> results
      | Inr results' \<Rightarrow> run_loop loads dumps b rest results')"

text \<open>
  \<^verbatim>\<open>SQLExplanationGenerationPostProcessor.run\<close>: the list under \<^verbatim>\<open>results\<close> of the
  dictionary it returns.
\<close>

definition post_processor_run ::
  "(string \<Rightarrow> json option) \<Rightarrow> (json \<Rightarrow> string option) \<Rightarrow> generate list \<Rightarrow>
   explanation_bundle list \<Rightarrow> explanation_record list" where
  "post_processor_run loads dumps generates preprocessed_sql_analysis_results =
     (case preprocessed_sql_analysis_results of
        [] \<Rightarrow> []
      | b # _ \<Rightarrow> run_loop loads dumps b generates [])"

text \<open>Whether the reply makes the loop body raise, and the records it adds when not.\<close>

definition raises ::
  "(string \<Rightarrow> json option) \<Rightarrow> (json \<Rightarrow> string option) \<Rightarrow> explanation_bundle \<Rightarrow> generate \<Rightarrow> bool" where
  "raises loads dumps b g = isl (reconcile_reply loads dumps b g [])"

definition reply_records ::
  "(string \<Rightarrow> json option) \<Rightarrow> (json \<Rightarrow> string option) \<Rightarrow> explanation_bundle \<Rightarrow> generate \<Rightarrow>
   explanation_record list" where
  "reply_records loads dumps b g =
     (case reconcile_reply loads dumps b g [] of Inl e \<Rightarrow> [] | Inr records \<Rightarrow> records)"

text \<open>The document of a reply that holds one category with a list of explanation strings.\<close>

definition reply_document :: "string \<Rightarrow> string list \<Rightarrow> json" where
  "reply_document category explanations =
     JObj [(''results'', JObj [(category, JArr (map JStr explanations))])]"

text \<open>
  The specification's words for the reconciler. The five category names in their fixed
  order; a category is non-empty in the bundle (the \<^verbatim>\<open>selectItems\<close> dictionary always
  is) and non-empty in the reply's \<^verbatim>\<open>results\<close>; the category a reply is reconciled
  under is the first that is both, if any.
\<close>

definition categories :: "string list" where
  "categories = [''filter'', ''groupByKeys'', ''relation'', ''selectItems'', ''sortings'']"

definition bundle_has :: "string \<Rightarrow> explanation_bundle \<Rightarrow> bool" where
  "bundle_has category b =
     (if category = ''filter'' then b_filter b \<noteq> None
      else if category = ''groupByKeys'' then b_groupByKeys b \<noteq> []
      else if category = ''relation'' then b_relation b \<noteq> []
      else if category = ''selectItems'' then True
      else if category = ''sortings'' then b_sortings b \<noteq> []
      else False)"

definition reply_has :: "string \<Rightarrow> (string \<times> json) list \<Rightarrow> bool" where
  "reply_has category kvs =
     (case map_of kvs category of None \<Rightarrow> False | Some v \<Rightarrow> truthy_json v)"

definition addressed_category :: "explanation_bundle \<Rightarrow> (string \<times> json) list \<Rightarrow> string option" where
  "addressed_category b kvs =
     find (\<lambda>category. bundle_has category b \<and> reply_has category kvs) categories"

text \<open>
  The number of units a bundle has in a list category, and the record that pairs the
  \<open>k\<close>-th of them with an explanation string: the category as type, the unit's id, the
  unit's values, the explanation.
\<close>

definition units_count :: "string \<Rightarrow> explanation_bundle \<Rightarrow> nat" where
  "units_count category b =
     (if category = ''groupByKeys'' then length (b_groupByKeys b)
      else if category = ''relation'' then length (b_relation b)
      else if category = ''sortings'' then length (b_sortings b)
      else 0)"

definition paired_record :: "string \<Rightarrow> explanation_bundle \<Rightarrow> nat \<Rightarrow> string \<Rightarrow> explanation_record" where
  "paired_record category b k explanation =
     (if category = ''relation''
      then ExplanationRecord ''relation''
             (RelationPayload (unit_id (b_relation b ! k)) (unit_values (b_relation b ! k))
                (JStr explanation))
      else if category = ''groupByKeys''
      then ExplanationRecord ''groupByKeys''
             (ExprPayload (unit_id (b_groupByKeys b ! k)) (unit_values (b_groupByKeys b ! k))
                (JStr explanation))
      else ExplanationRecord ''sortings''
             (ExprPayload (unit_id (b_sortings b ! k)) (unit_values (b_sortings b ! k))
                (JStr explanation)))"

text \<open>
  A bundle with units in every category; a parser that knows six reply texts and raises
  on every other text (\<^verbatim>\<open>F\<close>, \<^verbatim>\<open>G\<close>, \<^verbatim>\<open>R\<close>, \<^verbatim>\<open>S\<close> stand for the JSON texts of the
  one-category documents, \<^verbatim>\<open>FG\<close> and \<^verbatim>\<open>GS\<close> for those of documents with two
  categories); a serialiser that always returns.
\<close>

definition example_bundle :: explanation_bundle where
  "example_bundle =
     Bundle (Some (Unit ''age > 18'' ''f1''))
       [Unit ''country'' ''g1'', Unit ''city'' ''g2'']
       [Unit (TableValues ''TABLE'' ''customers'') ''t1'']
       (SelectResult [] [Unit (SelectValues ''n'' ''name'') ''s1''])
       [Unit ''age DESC'' ''o1'', Unit ''name ASC'' ''o2'', Unit ''city ASC'' ''o3'']"

definition two_category_results :: "(string \<times> json) list" where
  "two_category_results =
     [(''filter'', JArr [JStr ''adults only'']),
      (''groupByKeys'', JArr (map JStr [''by country'', ''by city'']))]"

definition later_category_results :: "(string \<times> json) list" where
  "later_category_results =
     [(''sortings'', JArr (map JStr [''oldest first''])),
      (''groupByKeys'', JArr (map JStr [''by country'', ''by city'', ''extra'']))]"

definition example_loads :: "string \<Rightarrow> json option" where
  "example_loads reply =
     (if reply = ''G'' then Some (reply_document ''groupByKeys'' [''by country'', ''by city'', ''extra''])
      else if reply = ''R'' then Some (reply_document ''relation'' [''from customers''])
      else if reply = ''S'' then Some (reply_document ''sortings'' [''oldest first'', ''then by name''])
      else if reply = ''F'' then Some (reply_document ''filter'' [''adults only''])
      else if reply = ''FG'' then Some (JObj [(''results'', JObj two_category_results)])
      else if reply = ''GS'' then Some (JObj [(''results'', JObj later_category_results)])
      else None)"

definition example_dumps :: "json \<Rightarrow> string option" where
  "example_dumps sql_explanation_results = Some ''...''"

subsection \<open>The dispatcher\<close>

text \<open>
  One element of the dispatcher's \<^verbatim>\<open>prompts\<close>: the prompt builder's dictionary, read with
  \<^verbatim>\<open>prompt.get("prompt")\<close>.
\<close>

datatype prompt_dict = PromptDict (prompt_get: "string option")

text \<open>
  How one call of \<^verbatim>\<open>generator.run\<close> settles: it returns the raw reply structure or
  raises, at some point in time. The generator is the caller's; it is given the position
  of the call in the batch and the prompt.
\<close>

datatype ('e, 'a) outcome = Outcome (finished_at: nat) (settled: "'e + 'a")

text \<open>
  \<^verbatim>\<open>tasks = [_task(prompt, generator) for prompt in prompts]\<close>, each task awaiting
  \<^verbatim>\<open>generator.run(prompt=prompt.get("prompt"))\<close>.
\<close>

definition tasks ::
  "prompt_dict list \<Rightarrow> (nat \<Rightarrow> string option \<Rightarrow> ('e, 'a) outcome) \<Rightarrow> ('e, 'a) outcome list" where
  "tasks built_prompts generator =
     map (\<lambda>(i, prompt). generator i (prompt_get prompt))
       (zip [0..<length built_prompts] built_prompts)"

text \<open>
  \<^verbatim>\<open>await asyncio.gather(*tasks)\<close>, called without \<^verbatim>\<open>return_exceptions\<close>, by the
  library's contract: when every awaitable returns, the list of the returned values in
  the order of the awaitables; otherwise the exception raised first is propagated to
  the awaiting caller.
\<close>

fun first_exception :: "('e, 'a) outcome list \<Rightarrow> (nat \<times> 'e) option" where
  "first_exception [] = None"
| "first_exception (Outcome t (Inr v) # rest) = first_exception rest"
| "first_exception (Outcome t (Inl e) # rest) =
     (case first_exception rest of
        None \<Rightarrow> Some (t, e)
      | Some (t', e') \<Rightarrow> if t' < t then Some (t', e') else Some (t, e))"

fun returned_values :: "('e, 'a) outcome list \<Rightarrow> 'a list" where
  "returned_values [] = []"
| "returned_values (Outcome t (Inr v) # rest) = v # returned_values rest"
| "returned_values (Outcome t (Inl e) # rest) = returned_values rest"

definition gather :: "('e, 'a) outcome list \<Rightarrow> 'e + 'a list" where
  "gather awaitables =
     (case first_exception awaitables of
        Some (t, e) \<Rightarrow> Inl e
      | None \<Rightarrow> Inr (returned_values awaitables))"

text \<open>
  \<^verbatim>\<open>generate_sql_explanation\<close>: what the function returns to the pipeline, which hands
  it to the reconciler as \<^verbatim>\<open>generates\<close>, or the exception it raises.
\<close>

definition generate_sql_explanation ::
  "prompt_dict list \<Rightarrow> (nat \<Rightarrow> string option \<Rightarrow> ('e, 'a) outcome) \<Rightarrow> 'e + 'a list" where
  "generate_sql_explanation built_prompts generator = gather (tasks built_prompts generator)"

text \<open>
  Two prompts, a generator whose first call times out after its second call has
  returned, and a generator whose calls both return.
\<close>

datatype generator_error = Timeout | MalformedResponse

definition example_prompts :: "prompt_dict list" where
  "example_prompts = [PromptDict (Some ''explain the filter''), PromptDict (Some ''explain the keys'')]"

definition failing_generator :: "nat \<Rightarrow> string option \<Rightarrow> (generator_error, generate) outcome" where
  "failing_generator i prompt =
     (if i = 0 then Outcome 5 (Inl Timeout) else Outcome 2 (Inr (Generate [''G''])))"

definition returning_generator :: "nat \<Rightarrow> string option \<Rightarrow> (generator_error, generate) outcome" where
  "returning_generator i prompt =
     (if i = 0 then Outcome 5 (Inr (Generate [''F''])) else Outcome 2 (Inr (Generate [''G''])))"

section \<open>Properties\<close>

lemma endswith_join_kind_name: "endswith (join_kind_name k) ''_JOIN''"
  by (cases k) (simp_all add: endswith_def)

text \<open>The string tests of the source select the constructors.\<close>

lemma rel_type_dispatch:
  "(rel_type r = ''SUBQUERY'') = (\<exists>i. r = SUBQUERY i)"
  "(rel_type r = ''TABLE'') = (\<exists>n i. r = TABLE n i)"
  "endswith (rel_type r) ''_JOIN'' = (\<exists>k c es l r' i. r = JOIN k c es l r' i)"
proof -
  show "(rel_type r = ''SUBQUERY'') = (\<exists>i. r = SUBQUERY i)"
  proof (cases r)
    case (JOIN k c es l r' i)
    then show ?thesis by (cases k) simp_all
  qed simp_all
  show "(rel_type r = ''TABLE'') = (\<exists>n i. r = TABLE n i)"
  proof (cases r)
    case (JOIN k c es l r' i)
    then show ?thesis by (cases k) simp_all
  qed simp_all
  show "endswith (rel_type r) ''_JOIN'' = (\<exists>k c es l r' i. r = JOIN k c es l r' i)"
  proof (cases r)
    case (JOIN k c es l r' i)
    then show ?thesis by (simp add: endswith_join_kind_name)
  qed (simp_all add: endswith_def)
qed

subsection \<open>The relation flattener\<close>

lemma skipped_subtree_adds_nothing:
  "is_subquery_or_has_subquery_child r \<Longrightarrow>
   collect_relations r result cte_names top_level = (result, cte_names)"
  by (cases r) (auto split: if_splits)

text \<open>
  C1. The specification counts one unit per join node of a tree without
  \<^verbatim>\<open>SUBQUERY\<close>. On a join nested under a join the flattener returns fewer: the example
  tree has two join nodes and no top-level table, and the returned list has one unit.
\<close>

theorem nested_join_returns_one_unit:
  "\<not> has_subquery nested_join_example \<and>
   count_joins nested_join_example + count_top_level_tables nested_join_example [''recent''] = 2 \<and>
   length (fst (compose_sql_expression_of_relation_type nested_join_example [CteName ''recent''])) = 1"
  by (simp add: nested_join_example_def compose_sql_expression_of_relation_type_def endswith_def)

text \<open>
  C3. The specification says the caller's \<^verbatim>\<open>cte_names\<close> list is unchanged by the call.
  On the example tree the unit of the inner join ends up appended to it.
\<close>

theorem nested_join_appends_to_cte_names:
  "snd (compose_sql_expression_of_relation_type nested_join_example [CteName ''recent'']) =
     [CteName ''recent'',
      RelUnit (Unit (JoinValues ''LEFT_JOIN'' ''o.id = i.oid''
                       [ExprSource ''o.id'' ''orders'' ''id'']) ''j2'')]"
  by (simp add: nested_join_example_def compose_sql_expression_of_relation_type_def
        endswith_def get_id_def)

subsection \<open>The filter flattener\<close>

text \<open>
  C2. The specification says the rendered string of a tree of \<^verbatim>\<open>EXPR\<close> leaves under
  \<^verbatim>\<open>AND\<close>/\<^verbatim>\<open>OR\<close> nodes is the leaves' expressions joined by the operator names. With an
  internal node below the root, the code renders that child as the text of a Python
  dictionary.
\<close>

theorem nested_filter_renders_dictionary:
  "compose_sql_expression_of_filter_type nested_filter_example True =
     Dict (Unit ''{'values': 'age > 18 OR vip = 1', 'id': 'f2'} AND active = 1'' ''f1'') \<and>
   inorder_concat nested_filter_example = ''age > 18 OR vip = 1 AND active = 1''"
  by (simp add: nested_filter_example_def py_repr_def escape_char_def is_printable_def
        get_id_def Let_def)




subsection \<open>The select-item flattener\<close>

lemma existed_in_data_sources_iff:
  "existed_in_data_sources select_item ds = (\<exists>d \<in> set ds. matches_data_source select_item d)"
  by (induction ds) simp_all

lemma is_select_item_existed_iff:
  "is_select_item_existed_in_selected_data_sources select_item sds =
     (\<exists>d \<in> set (concat sds). matches_data_source select_item d)"
  by (induction sds) (auto simp: existed_in_data_sources_iff)

lemma existed_iff_not_retained:
  "is_select_item_existed_in_selected_data_sources select_item sds = (\<not> retained select_item sds)"
  unfolding is_select_item_existed_iff retained_def primary_source_def matches_data_source_def
  by (auto split: option.splits list.splits simp: image_iff)

lemma select_loop_partition:
  "select_loop select_items sds (SelectResult w wo) =
     SelectResult
       (w @ map select_unit
          (filter (\<lambda>i. retained i sds \<and> has_function_call_or_mathematical_operation i) select_items))
       (wo @ map select_unit
          (filter (\<lambda>i. retained i sds \<and> \<not> has_function_call_or_mathematical_operation i) select_items))"
proof (induction select_items arbitrary: w wo)
  case Nil
  then show ?case by simp
next
  case (Cons i rest)
  show ?case
  proof (cases "retained i sds")
    case False
    then show ?thesis using Cons.IH by (simp add: existed_iff_not_retained)
  next
    case True
    then show ?thesis
      using Cons.IH
      by (cases "has_function_call_or_mathematical_operation i")
         (simp_all add: existed_iff_not_retained has_function_call_or_mathematical_operation_def)
  qed
qed

text \<open>
  C8. The flattener keeps exactly the items whose primary source, when they have one,
  is no selected data source; a kept item goes to the first list exactly when one of
  its two properties is the string \<^verbatim>\<open>true\<close>, to the second otherwise; both lists are in
  input order.
\<close>

theorem select_items_partition:
  "compose_sql_expression_of_select_type select_items selected_data_sources =
     SelectResult
       (map select_unit
          (filter (\<lambda>i. retained i selected_data_sources
                       \<and> has_function_call_or_mathematical_operation i) select_items))
       (map select_unit
          (filter (\<lambda>i. retained i selected_data_sources
                       \<and> \<not> has_function_call_or_mathematical_operation i) select_items))"
  unfolding compose_sql_expression_of_select_type_def
  using select_loop_partition [of select_items selected_data_sources "[]" "[]"] by simp

subsection \<open>The request builder\<close>

text \<open>
  C4. The specification says a bundle whose \<^verbatim>\<open>selectItems\<close> has two empty lists yields
  no request for \<^verbatim>\<open>selectItems\<close>. For the bundle of a fragment that has only a filter,
  the builder emits a second request, for the empty \<^verbatim>\<open>selectItems\<close>.
\<close>

theorem empty_select_items_still_requested:
  "b_selectItems filter_only_bundle = SelectResult [] [] \<and>
   prompts question sql [filter_only_bundle] sql_summary (\<lambda>args. args) =
     Inr [PromptArgs question sql (''filter'', FilterText ''age > 18'')
            ''Explain the filter condition in the SQL query.'' sql_summary,
          PromptArgs question sql (''selectItems'', SelectItemsValues [] [])
            ''Explain the select items in the SQL query.'' sql_summary]"
  by (simp add: prompts_def filter_only_bundle_def bundle_items_def preprocess_selectItems_def)

subsection \<open>The reconciler\<close>

lemma on_success_simps:
  "on_success (Inl e) f = Inl e"
  "on_success (Inr v) f = f v"
  by (simp_all add: on_success_def)

lemma on_success_assoc:
  "on_success (on_success x f) g = on_success x (\<lambda>v. on_success (f v) g)"
  by (cases x) (simp_all add: on_success_def)

lemmas append_simps =
  on_success_assoc on_success_simps if_distrib [of "\<lambda>x. on_success x _"]

text \<open>
  What a branch appends does not depend on what \<^verbatim>\<open>results\<close> already holds.
\<close>

lemma reconcile_sortings_append:
  "reconcile_sortings b r results =
     on_success (reconcile_sortings b r []) (\<lambda>records. Inr (results @ records))"
  unfolding reconcile_sortings_def
  by (simp add: append_simps cong: if_cong)

lemma reconcile_selectItems_append:
  "reconcile_selectItems b r results =
     on_success (reconcile_selectItems b r []) (\<lambda>records. Inr (results @ records))"
  unfolding reconcile_selectItems_def
  by (subst reconcile_sortings_append) (simp add: append_simps cong: if_cong)

lemma reconcile_relation_append:
  "reconcile_relation b r results =
     on_success (reconcile_relation b r []) (\<lambda>records. Inr (results @ records))"
  unfolding reconcile_relation_def
  by (subst reconcile_selectItems_append) (simp add: append_simps cong: if_cong)

lemma reconcile_groupByKeys_append:
  "reconcile_groupByKeys b r results =
     on_success (reconcile_groupByKeys b r []) (\<lambda>records. Inr (results @ records))"
  unfolding reconcile_groupByKeys_def
  by (subst reconcile_relation_append) (simp add: append_simps cong: if_cong)

lemma reconcile_append:
  "reconcile b r results = on_success (reconcile b r []) (\<lambda>records. Inr (results @ records))"
  unfolding reconcile_def
  by (subst reconcile_groupByKeys_append)
     (simp add: append_simps option.case_distrib [of "\<lambda>x. on_success x _"]
        cong: if_cong option.case_cong)

lemma reconcile_reply_append:
  "reconcile_reply loads dumps b g results =
     on_success (reconcile_reply loads dumps b g []) (\<lambda>records. Inr (results @ records))"
  unfolding reconcile_reply_def
  by (subst reconcile_append) (simp add: on_success_assoc)

text \<open>
  On results that are a dictionary, the conditions of the chain are the specification's
  two tests, and the chain takes the branch of the first category that passes both.
\<close>

lemma zip_records_strings:
  "zip_records make units (JArr (map JStr es)) =
     Inr (map (\<lambda>(u, e). make u (JStr e)) (zip units es))"
  by (simp add: zip_records_def on_success_def zip_map2 case_prod_beta)

lemma both_truthy_dict:
  "\<not> truthy_json dflt \<Longrightarrow>
   both_truthy bundle_side (JObj kvs) category dflt = Inr (bundle_side \<and> reply_has category kvs)"
  by (cases "map_of kvs category") (simp_all add: both_truthy_def on_success_def reply_has_def)

lemma reply_has_strings:
  "map_of kvs category = Some (JArr (map JStr es)) \<Longrightarrow> reply_has category kvs = (es \<noteq> [])"
  by (simp add: reply_has_def)

lemma addressed_category_unfold:
  "addressed_category b kvs =
     (if b_filter b \<noteq> None \<and> reply_has ''filter'' kvs then Some ''filter''
      else if b_groupByKeys b \<noteq> [] \<and> reply_has ''groupByKeys'' kvs then Some ''groupByKeys''
      else if b_relation b \<noteq> [] \<and> reply_has ''relation'' kvs then Some ''relation''
      else if reply_has ''selectItems'' kvs then Some ''selectItems''
      else if b_sortings b \<noteq> [] \<and> reply_has ''sortings'' kvs then Some ''sortings''
      else None)"
  by (simp add: addressed_category_def categories_def bundle_has_def)

lemmas chain_defs =
  reconcile_def reconcile_groupByKeys_def reconcile_relation_def reconcile_selectItems_def
  reconcile_sortings_def

lemma reconcile_groupByKeys_first:
  assumes "map_of kvs ''groupByKeys'' = Some (JArr (map JStr es))"
    and "addressed_category b kvs = None \<or> addressed_category b kvs = Some ''groupByKeys''"
  shows "reconcile b (JObj kvs) results =
     Inr (results @ map (\<lambda>(u, e). key_record ''groupByKeys'' u (JStr e)) (zip (b_groupByKeys b) es))"
  using assms
  by (auto simp: addressed_category_unfold chain_defs both_truthy_dict on_success_simps
        reply_has_strings zip_records_strings split: if_splits)

lemma reconcile_relation_first:
  assumes "map_of kvs ''relation'' = Some (JArr (map JStr es))"
    and "addressed_category b kvs = None \<or> addressed_category b kvs = Some ''relation''"
  shows "reconcile b (JObj kvs) results =
     Inr (results @ map (\<lambda>(u, e). relation_record u (JStr e)) (zip (b_relation b) es))"
  using assms
  by (auto simp: addressed_category_unfold chain_defs both_truthy_dict on_success_simps
        reply_has_strings zip_records_strings split: if_splits)

lemma reconcile_sortings_first:
  assumes "map_of kvs ''sortings'' = Some (JArr (map JStr es))"
    and "addressed_category b kvs = None \<or> addressed_category b kvs = Some ''sortings''"
  shows "reconcile b (JObj kvs) results =
     Inr (results @ map (\<lambda>(u, e). key_record ''sortings'' u (JStr e)) (zip (b_sortings b) es))"
  using assms
  by (auto simp: addressed_category_unfold chain_defs both_truthy_dict on_success_simps
        reply_has_strings zip_records_strings split: if_splits)


lemma reconcile_first_match:
  assumes "category \<in> {''groupByKeys'', ''sortings'', ''relation''}"
    and "map_of kvs category = Some (JArr (map JStr es))"
    and "addressed_category b kvs = None \<or> addressed_category b kvs = Some category"
  shows "\<exists>records.
           reconcile b (JObj kvs) results = Inr (results @ records) \<and>
           length records = min (units_count category b) (length es) \<and>
           (\<forall>k < length records. records ! k = paired_record category b k (es ! k))"
proof -
  from assms(1) consider "category = ''groupByKeys''" | "category = ''sortings''"
    | "category = ''relation''" by blast
  then show ?thesis
  proof cases
    case 1
    let ?records = "map (\<lambda>(u, e). key_record ''groupByKeys'' u (JStr e)) (zip (b_groupByKeys b) es)"
    have "reconcile b (JObj kvs) results = Inr (results @ ?records)"
      using assms(2,3) unfolding 1 by (rule reconcile_groupByKeys_first)
    moreover have "length ?records = min (units_count category b) (length es)"
      by (simp add: 1 units_count_def)
    moreover have "\<forall>k < length ?records. ?records ! k = paired_record category b k (es ! k)"
      by (simp add: 1 paired_record_def key_record_def)
    ultimately show ?thesis by blast
  next
    case 2
    let ?records = "map (\<lambda>(u, e). key_record ''sortings'' u (JStr e)) (zip (b_sortings b) es)"
    have "reconcile b (JObj kvs) results = Inr (results @ ?records)"
      using assms(2,3) unfolding 2 by (rule reconcile_sortings_first)
    moreover have "length ?records = min (units_count category b) (length es)"
      by (simp add: 2 units_count_def)
    moreover have "\<forall>k < length ?records. ?records ! k = paired_record category b k (es ! k)"
      by (simp add: 2 paired_record_def key_record_def)
    ultimately show ?thesis by blast
  next
    case 3
    let ?records = "map (\<lambda>(u, e). relation_record u (JStr e)) (zip (b_relation b) es)"
    have "reconcile b (JObj kvs) results = Inr (results @ ?records)"
      using assms(2,3) unfolding 3 by (rule reconcile_relation_first)
    moreover have "length ?records = min (units_count category b) (length es)"
      by (simp add: 3 units_count_def)
    moreover have "\<forall>k < length ?records. ?records ! k = paired_record category b k (es ! k)"
      by (simp add: 3 paired_record_def relation_record_def)
    ultimately show ?thesis by blast
  qed
qed

lemmas reconcile_defs =
  reconcile_reply_def parse_results_def log_results_def reconcile_def reconcile_groupByKeys_def
  reconcile_relation_def reconcile_selectItems_def reconcile_sortings_def both_truthy_def
  on_success_def zip_records_def key_record_def relation_record_def select_record_def
  reply_document_def

text \<open>
  C5, as stated: a reply with \<open>m\<close> explanation strings for \<^verbatim>\<open>groupByKeys\<close> and a bundle
  with \<open>n\<close> units of it give \<open>min n m\<close> records pairing them. Here \<open>n = m = 2\<close>, the
  reply also explains the filter, the bundle has a filter, and the reply adds one record,
  for the filter.
\<close>

theorem two_category_reply_counterexample:
  "length (b_groupByKeys example_bundle) = 2 \<and>
   example_loads ''FG'' =
     Some (JObj [(''results'',
       JObj [(''filter'', JArr [JStr ''adults only'']),
             (''groupByKeys'', JArr [JStr ''by country'', JStr ''by city''])])]) \<and>
   reconcile_reply example_loads example_dumps example_bundle (Generate [''FG'']) [] =
     Inr [ExplanationRecord ''filter'' (ExprPayload ''f1'' ''age > 18'' (JStr ''adults only''))]"
  by (simp add: reconcile_defs example_loads_def example_dumps_def example_bundle_def
        two_category_results_def)

text \<open>
  C5, amended. For each of \<^verbatim>\<open>groupByKeys\<close>, \<^verbatim>\<open>sortings\<close> and \<^verbatim>\<open>relation\<close>: when the
  reply's \<^verbatim>\<open>results\<close> are a dictionary that holds \<open>m\<close> explanation strings for the
  category, the bundle has \<open>n\<close> units of it, the category is the one the reply is
  reconciled under (the first in the fixed order that is non-empty in bundle and reply)
  or there is none, and the log message of the reply is built, then the reply adds
  exactly \<open>min n m\<close> records and raises nothing; the \<open>k\<close>-th record has the category
  as type, the id and values of the \<open>k\<close>-th unit and the \<open>k\<close>-th explanation.
\<close>

theorem first_match_reply_zips_units:
  assumes "category \<in> {''groupByKeys'', ''sortings'', ''relation''}"
    and "replies g = reply # rest"
    and "loads reply = Some document"
    and "subscript document ''results'' = Inr (JObj kvs)"
    and "dumps (JObj kvs) = Some message"
    and "map_of kvs category = Some (JArr (map JStr explanations))"
    and "addressed_category b kvs = None \<or> addressed_category b kvs = Some category"
  shows "\<exists>records.
           reconcile_reply loads dumps b g results = Inr (results @ records) \<and>
           length records = min (units_count category b) (length explanations) \<and>
           (\<forall>k < length records.
              records ! k = paired_record category b k (explanations ! k))"
proof -
  have "parse_results loads g = Inr (JObj kvs)"
    using assms(2-4) by (simp add: parse_results_def)
  then have "reconcile_reply loads dumps b g results = reconcile b (JObj kvs) results"
    using assms(5) by (simp add: reconcile_reply_def log_results_def on_success_simps)
  then show ?thesis
    using reconcile_first_match [OF assms(1,6,7), of results] by simp
qed

theorem first_match_reply_zips_units_witness:
  "''groupByKeys'' \<in> {''groupByKeys'', ''sortings'', ''relation''} \<and>
   replies (Generate [''GS'']) = ''GS'' # [] \<and>
   example_loads ''GS'' = Some (JObj [(''results'', JObj later_category_results)]) \<and>
   subscript (JObj [(''results'', JObj later_category_results)]) ''results'' =
     Inr (JObj later_category_results) \<and>
   example_dumps (JObj later_category_results) = Some ''...'' \<and>
   map_of later_category_results ''groupByKeys'' =
     Some (JArr (map JStr [''by country'', ''by city'', ''extra''])) \<and>
   addressed_category example_bundle later_category_results = Some ''groupByKeys'' \<and>
   reply_has ''sortings'' later_category_results \<and>
   units_count ''groupByKeys'' example_bundle = 2 \<and>
   (\<exists>records.
      reconcile_reply example_loads example_dumps example_bundle (Generate [''GS'']) [] =
        Inr records \<and>
      length records = 2 \<and>
      records ! 0 = ExplanationRecord ''groupByKeys''
                      (ExprPayload ''g1'' ''country'' (JStr ''by country'')) \<and>
      records ! 1 = ExplanationRecord ''groupByKeys''
                      (ExprPayload ''g2'' ''city'' (JStr ''by city'')))"
proof -
  have h1: "''groupByKeys'' \<in> {''groupByKeys'', ''sortings'', ''relation''}" by simp
  have h2: "replies (Generate [''GS'']) = ''GS'' # []" by simp
  have h3: "example_loads ''GS'' = Some (JObj [(''results'', JObj later_category_results)])"
    by (simp add: example_loads_def)
  have h4: "subscript (JObj [(''results'', JObj later_category_results)]) ''results'' =
      Inr (JObj later_category_results)"
    by simp
  have h5: "example_dumps (JObj later_category_results) = Some ''...''"
    by (simp add: example_dumps_def)
  have h6: "map_of later_category_results ''groupByKeys'' =
      Some (JArr (map JStr [''by country'', ''by city'', ''extra'']))"
    by (simp add: later_category_results_def)
  have a: "addressed_category example_bundle later_category_results = Some ''groupByKeys''"
    by (simp add: addressed_category_def categories_def bundle_has_def reply_has_def
          example_bundle_def later_category_results_def)
  then have h7: "addressed_category example_bundle later_category_results = None \<or>
      addressed_category example_bundle later_category_results = Some ''groupByKeys''"
    by simp
  have s: "reply_has ''sortings'' later_category_results"
    by (simp add: reply_has_def later_category_results_def)
  have n: "units_count ''groupByKeys'' example_bundle = 2"
    by (simp add: units_count_def example_bundle_def)
  from first_match_reply_zips_units
         [where loads = example_loads and dumps = example_dumps and b = example_bundle
            and results = "[]", OF h1 h2 h3 h4 h5 h6 h7]
  obtain records where r:
    "reconcile_reply example_loads example_dumps example_bundle (Generate [''GS'']) [] =
       Inr records"
    "length records = 2"
    "\<forall>k < length records.
       records ! k = paired_record ''groupByKeys'' example_bundle k
                       ([''by country'', ''by city'', ''extra''] ! k)"
    by (auto simp: n)
  from r(2,3) have "records ! 0 = paired_record ''groupByKeys'' example_bundle 0 ''by country''"
    and "records ! 1 = paired_record ''groupByKeys'' example_bundle 1 ''by city''"
    by auto
  then have "records ! 0 = ExplanationRecord ''groupByKeys''
                      (ExprPayload ''g1'' ''country'' (JStr ''by country''))"
    and "records ! 1 = ExplanationRecord ''groupByKeys''
                      (ExprPayload ''g2'' ''city'' (JStr ''by city''))"
    by (simp_all add: paired_record_def example_bundle_def)
  with r(1,2) h1 h2 h3 h4 h5 h6 a s n show ?thesis by blast
qed


text \<open>An exception in the loop body leaves \<^verbatim>\<open>results\<close> as it was before the reply.\<close>

lemma run_loop_raises:
  "raises loads dumps b g \<Longrightarrow> run_loop loads dumps b (g # post) results = results"
  using reconcile_reply_append [of loads dumps b g results]
  by (cases "reconcile_reply loads dumps b g []") (simp_all add: raises_def on_success_simps)

lemma run_loop_succeeds:
  "\<not> raises loads dumps b g \<Longrightarrow>
   run_loop loads dumps b (g # rest) results =
     run_loop loads dumps b rest (results @ reply_records loads dumps b g)"
  using reconcile_reply_append [of loads dumps b g results]
  by (cases "reconcile_reply loads dumps b g []")
     (simp_all add: raises_def reply_records_def on_success_simps)

lemma run_loop_prefix:
  "\<forall>g \<in> set pre. \<not> raises loads dumps b g \<Longrightarrow>
   run_loop loads dumps b (pre @ rest) results =
     run_loop loads dumps b rest (results @ concat (map (reply_records loads dumps b) pre))"
proof (induction pre arbitrary: results)
  case Nil
  then show ?case by simp
next
  case (Cons g pre)
  then show ?case by (simp add: run_loop_succeeds del: run_loop.simps(2))
qed

text \<open>
  The loop body raises on a reply that is not JSON, on a document without \<^verbatim>\<open>results\<close>,
  on results the serialiser refuses, and on \<^verbatim>\<open>results\<close> that are not a dictionary.
\<close>

lemma malformed_json_raises:
  "replies g = reply # rest \<Longrightarrow> loads reply = None \<Longrightarrow> raises loads dumps b g"
  by (simp add: raises_def reconcile_reply_def parse_results_def on_success_def)

lemma missing_results_raises:
  "replies g = reply # rest \<Longrightarrow> loads reply = Some (JObj kvs) \<Longrightarrow>
   map_of kvs ''results'' = None \<Longrightarrow> raises loads dumps b g"
  by (simp add: raises_def reconcile_reply_def parse_results_def on_success_def)

lemma unserialisable_results_raises:
  "replies g = reply # rest \<Longrightarrow> loads reply = Some (JObj kvs) \<Longrightarrow>
   map_of kvs ''results'' = Some r \<Longrightarrow> dumps r = None \<Longrightarrow> raises loads dumps b g"
  by (simp add: raises_def reconcile_reply_def parse_results_def log_results_def on_success_def)

lemma results_not_dict_raises:
  assumes "replies g = reply # rest" and "loads reply = Some (JObj kvs)"
    and "map_of kvs ''results'' = Some r" and "\<forall>fields. r \<noteq> JObj fields"
  shows "raises loads dumps b g"
proof -
  have get: "dict_get r key dflt = Inl AttributeError" for key dflt
    using assms(4) by (cases r) simp_all
  have "parse_results loads g = Inr r"
    using assms(1-3) by (simp add: parse_results_def)
  then show ?thesis
    by (cases "dumps r")
       (simp_all add: raises_def reconcile_reply_def log_results_def reconcile_def
          reconcile_groupByKeys_def reconcile_relation_def reconcile_selectItems_def
          both_truthy_def on_success_def get)
qed

text \<open>
  C6. When a reply makes the loop body raise, the run returns a list all the same: the
  records of the replies before it, in order.
\<close>

theorem failure_keeps_earlier_records:
  assumes "\<forall>g' \<in> set pre. \<not> raises loads dumps b g'"
    and "raises loads dumps b g"
  shows "post_processor_run loads dumps (pre @ g # post) (b # bs) =
           concat (map (reply_records loads dumps b) pre)"
  unfolding post_processor_run_def
  by (simp add: run_loop_prefix [OF assms(1)] run_loop_raises [OF assms(2)]
        del: run_loop.simps(2))

theorem failure_keeps_earlier_records_witness:
  "\<not> raises example_loads example_dumps example_bundle (Generate [''F'']) \<and>
   \<not> raises example_loads example_dumps example_bundle (Generate [''G'']) \<and>
   raises example_loads example_dumps example_bundle (Generate [''{oops'']) \<and>
   post_processor_run example_loads example_dumps
     [Generate [''F''], Generate [''G''], Generate [''{oops''], Generate [''S'']]
     [example_bundle] =
     [ExplanationRecord ''filter'' (ExprPayload ''f1'' ''age > 18'' (JStr ''adults only'')),
      ExplanationRecord ''groupByKeys'' (ExprPayload ''g1'' ''country'' (JStr ''by country'')),
      ExplanationRecord ''groupByKeys'' (ExprPayload ''g2'' ''city'' (JStr ''by city''))]"
proof -
  have f: "reconcile_reply example_loads example_dumps example_bundle (Generate [''F'']) [] =
      Inr [ExplanationRecord ''filter'' (ExprPayload ''f1'' ''age > 18'' (JStr ''adults only''))]"
    by (simp add: reconcile_defs example_loads_def example_dumps_def example_bundle_def)
  have g: "reconcile_reply example_loads example_dumps example_bundle (Generate [''G'']) [] =
      Inr [ExplanationRecord ''groupByKeys'' (ExprPayload ''g1'' ''country'' (JStr ''by country'')),
           ExplanationRecord ''groupByKeys'' (ExprPayload ''g2'' ''city'' (JStr ''by city''))]"
    by (simp add: reconcile_defs example_loads_def example_dumps_def example_bundle_def)
  have bad: "raises example_loads example_dumps example_bundle (Generate [''{oops''])"
    by (simp add: raises_def reconcile_reply_def parse_results_def on_success_def
          example_loads_def)
  have ok: "\<forall>g' \<in> set [Generate [''F''], Generate [''G'']].
      \<not> raises example_loads example_dumps example_bundle g'"
    by (simp add: raises_def f g)
  from failure_keeps_earlier_records
         [where pre = "[Generate [''F''], Generate [''G'']]" and post = "[Generate [''S'']]"
            and bs = "[]", OF ok bad]
  show ?thesis using bad by (simp add: raises_def reply_records_def f g)
qed

text \<open>
  C10. With an empty list of bundles the run returns the empty list, whatever the
  replies and whatever the parser and the serialiser do with them.
\<close>

theorem empty_bundles_no_records: "post_processor_run loads dumps generates [] = []"
  by (simp add: post_processor_run_def)

subsection \<open>The dispatcher\<close>

lemma first_exception_None:
  "(first_exception awaitables = None) = (\<forall>x \<in> set awaitables. \<not> isl (settled x))"
proof (induction awaitables rule: first_exception.induct)
  case 1
  then show ?case by simp
next
  case (2 t v rest)
  then show ?case by simp
next
  case (3 t e rest)
  then show ?case by (simp split: option.splits)
qed

lemma first_exception_Some:
  "first_exception awaitables = Some (t, e) \<Longrightarrow>
   Outcome t (Inl e) \<in> set awaitables \<and>
   (\<forall>t' e'. Outcome t' (Inl e') \<in> set awaitables \<longrightarrow> t \<le> t')"
proof (induction awaitables arbitrary: t e rule: first_exception.induct)
  case 1
  then show ?case by simp
next
  case (2 t0 v rest)
  then show ?case by simp
next
  case (3 t0 e0 rest)
  show ?case
  proof (cases "first_exception rest")
    case None
    then have "\<forall>x \<in> set rest. \<not> isl (settled x)" by (simp add: first_exception_None)
    then have "\<forall>t' e'. Outcome t' (Inl e') \<notin> set rest" by force
    with 3 None show ?thesis by simp
  next
    case (Some p)
    obtain t1 e1 where p: "p = (t1, e1)" by (cases p)
    from 3(1) [OF Some [unfolded p]]
    have ih: "Outcome t1 (Inl e1) \<in> set rest"
      "\<forall>t' e'. Outcome t' (Inl e') \<in> set rest \<longrightarrow> t1 \<le> t'" by simp_all
    show ?thesis
    proof (cases "t1 < t0")
      case True
      with 3(2) Some p have "t = t1" "e = e1" by simp_all
      with ih True show ?thesis by auto
    next
      case False
      with 3(2) Some p have "t = t0" "e = e0" by simp_all
      with ih False show ?thesis by fastforce
    qed
  qed
qed

lemma returned_values_all:
  "map settled awaitables = map Inr raw_replies \<Longrightarrow> returned_values awaitables = raw_replies"
proof (induction awaitables arbitrary: raw_replies rule: returned_values.induct)
  case 1
  then show ?case by simp
next
  case (2 t v rest)
  then show ?case by (cases raw_replies) simp_all
next
  case (3 t e rest)
  then show ?case by (cases raw_replies) simp_all
qed

text \<open>
  C9, as stated: when one call of a batch fails, the raw reply of each sibling call is
  still passed through to the reconciler. Here the first call times out, the second has
  returned its reply, and the dispatcher raises the timeout: no reply is passed on.
\<close>

theorem one_failure_counterexample:
  "tasks example_prompts failing_generator =
     [Outcome 5 (Inl Timeout), Outcome 2 (Inr (Generate [''G'']))] \<and>
   generate_sql_explanation example_prompts failing_generator = Inl Timeout"
  by (simp add: generate_sql_explanation_def gather_def tasks_def example_prompts_def
        failing_generator_def upt_rec)

text \<open>
  C9, amended. When every call of the batch returns, the dispatcher returns the raw
  reply structures unchanged, in the order of the requests. When some call raises, the
  dispatcher raises the exception of the call that failed first, and returns no reply.
\<close>

theorem dispatcher_all_or_nothing:
  "(map settled (tasks built_prompts generator) = map Inr raw_replies \<longrightarrow>
      generate_sql_explanation built_prompts generator = Inr raw_replies) \<and>
   ((\<exists>x \<in> set (tasks built_prompts generator). isl (settled x)) \<longrightarrow>
      (\<exists>t e. Outcome t (Inl e) \<in> set (tasks built_prompts generator) \<and>
         (\<forall>t' e'. Outcome t' (Inl e') \<in> set (tasks built_prompts generator) \<longrightarrow> t \<le> t') \<and>
         generate_sql_explanation built_prompts generator = Inl e))"
proof (intro conjI impI)
  assume all: "map settled (tasks built_prompts generator) = map Inr raw_replies"
  have "\<forall>x \<in> set (tasks built_prompts generator). \<not> isl (settled x)"
  proof
    fix x assume "x \<in> set (tasks built_prompts generator)"
    then have "settled x \<in> set (map Inr raw_replies)" using all by (metis image_eqI set_map)
    then show "\<not> isl (settled x)" by auto
  qed
  then have "first_exception (tasks built_prompts generator) = None"
    by (simp add: first_exception_None)
  then show "generate_sql_explanation built_prompts generator = Inr raw_replies"
    by (simp add: generate_sql_explanation_def gather_def returned_values_all [OF all])
next
  assume "\<exists>x \<in> set (tasks built_prompts generator). isl (settled x)"
  then have "first_exception (tasks built_prompts generator) \<noteq> None"
    by (simp add: first_exception_None)
  then obtain t e where fe: "first_exception (tasks built_prompts generator) = Some (t, e)"
    by (cases "first_exception (tasks built_prompts generator)") auto
  from first_exception_Some [OF fe] fe
  show "\<exists>t e. Outcome t (Inl e) \<in> set (tasks built_prompts generator) \<and>
         (\<forall>t' e'. Outcome t' (Inl e') \<in> set (tasks built_prompts generator) \<longrightarrow> t \<le> t') \<and>
         generate_sql_explanation built_prompts generator = Inl e"
    by (auto simp: generate_sql_explanation_def gather_def)
qed

theorem dispatcher_all_or_nothing_witness:
  "map settled (tasks example_prompts returning_generator) =
     map Inr [Generate [''F''], Generate [''G'']] \<and>
   generate_sql_explanation example_prompts returning_generator =
     Inr [Generate [''F''], Generate [''G'']] \<and>
   (\<exists>x \<in> set (tasks example_prompts failing_generator). isl (settled x)) \<and>
   generate_sql_explanation example_prompts failing_generator = Inl Timeout"
proof -
  have ok: "map settled (tasks example_prompts returning_generator) =
      map Inr [Generate [''F''], Generate [''G'']]"
    by (simp add: tasks_def example_prompts_def returning_generator_def upt_rec)
  have t: "tasks example_prompts failing_generator =
      [Outcome 5 (Inl Timeout), Outcome 2 (Inr (Generate [''G'']))]"
    by (simp add: tasks_def example_prompts_def failing_generator_def upt_rec)
  then have bad: "\<exists>x \<in> set (tasks example_prompts failing_generator). isl (settled x)"
    by simp
  from dispatcher_all_or_nothing
         [of example_prompts returning_generator "[Generate [''F''], Generate [''G'']]"] ok
  have r1: "generate_sql_explanation example_prompts returning_generator =
      Inr [Generate [''F''], Generate [''G'']]"
    by blast
  from dispatcher_all_or_nothing [of example_prompts failing_generator "[]"] bad
  obtain t' e where "Outcome t' (Inl e) \<in> set (tasks example_prompts failing_generator)"
    and "generate_sql_explanation example_prompts failing_generator = Inl e"
    by blast
  then have r2: "generate_sql_explanation example_prompts failing_generator = Inl Timeout"
    by (simp add: t)
  from ok r1 bad r2 show ?thesis by blast
qed

end
